theory Spec2Isabelle
  imports Main
begin

section \<open>The disposition of a guarded error value\<close>

text \<open>
  \<^verbatim>\<open>details::Disposition::type\<close> of \<^verbatim>\<open>include/unique_error.h\<close>: the enumerators in
  the order of the source. \<^verbatim>\<open>Begin\<close> is a second name of \<^verbatim>\<open>Initiated\<close>.
\<close>

datatype Disposition =
  Invalid | Initiated | Defaulted | Released | Checked | Unchecked | End

definition Begin :: Disposition where
  "Begin = Initiated"

section \<open>Failures and programs over a store of objects\<close>

text \<open>
  The exception type \<^verbatim>\<open>fail_fast\<close>, with the message it is built from.
\<close>

datatype failure = fail_fast string

text \<open>
  A member function runs on a store and either returns a result or leaves through the
  fatal path. In both cases the store it leaves behind is part of the outcome, so that
  the writes made before a failure are visible.
\<close>

type_synonym ('s, 'a) prog = "'s \<Rightarrow> (failure + 'a) \<times> 's"

definition return :: "'a \<Rightarrow> ('s, 'a) prog" where
  "return a = (\<lambda>s. (Inr a, s))"

definition bind :: "('s, 'a) prog \<Rightarrow> ('a \<Rightarrow> ('s, 'b) prog) \<Rightarrow> ('s, 'b) prog" where
  "bind m f = (\<lambda>s. case m s of (Inl e, s') \<Rightarrow> (Inl e, s') | (Inr a, s') \<Rightarrow> f a s')"

definition seq :: "('s, 'a) prog \<Rightarrow> ('s, 'b) prog \<Rightarrow> ('s, 'b) prog" where
  "seq m n = bind m (\<lambda>_. n)"

text \<open>
  Modelled from the spec: \<^verbatim>\<open>fail_fast_assert\<close> of \<^verbatim>\<open>fail_fast.h\<close>, which is included by
  the header and is not among the sources. The spec gives it the shape
  \<^verbatim>\<open>assert_or_terminate(condition, message)\<close>: when the condition is false the process is
  terminated, or, in the build for the test suite, a catchable failure object is raised;
  when the condition is true nothing happens. Both failing variants are the outcome
  \<open>Inl (fail_fast message)\<close>, the store being the one at the point of the call.
\<close>

definition fail_fast_assert :: "bool \<Rightarrow> string \<Rightarrow> ('s, unit) prog" where
  "fail_fast_assert cond message =
     (\<lambda>s. if cond then (Inr (), s) else (Inl (fail_fast message), s))"

definition triggers_fatal :: "('s, 'a) prog \<Rightarrow> 's \<Rightarrow> bool" where
  "triggers_fatal m s = isl (fst (m s))"

section \<open>The error traits\<close>

text \<open>
  \<^verbatim>\<open>error_traits<T>\<close>: the two static members every instance has.
\<close>

record 'e error_traits =
  traits_initiate :: 'e
  traits_ok :: "'e \<Rightarrow> bool"

text \<open>
  The primary template: \<^verbatim>\<open>initiate() { return T{}; }\<close> and \<^verbatim>\<open>ok(e) { return !!e; }\<close>.
  What \<^verbatim>\<open>T{}\<close> is and how a \<^verbatim>\<open>T\<close> converts to \<^verbatim>\<open>bool\<close> belong to the type \<^verbatim>\<open>T\<close>,
  so they are parameters here.
\<close>

definition error_traits_primary :: "'t \<Rightarrow> ('t \<Rightarrow> bool) \<Rightarrow> 't error_traits" where
  "error_traits_primary T_init T_bool =
     \<lparr>traits_initiate = T_init, traits_ok = (\<lambda>e. \<not> \<not> T_bool e)\<rparr>"

text \<open>
  The two status types of the standard library, as far as the traits use them: a value,
  a category, the value-initialised object (value 0, in the generic category for
  \<^verbatim>\<open>std::error_condition\<close> and in the system category for \<^verbatim>\<open>std::error_code\<close>) and the
  conversion to \<^verbatim>\<open>bool\<close> (the value is not 0).
\<close>

datatype error_category = generic_category | system_category

record error_condition =
  condition_value :: int
  condition_category :: error_category

record error_code =
  code_value :: int
  code_category :: error_category

definition error_condition_init :: error_condition where
  "error_condition_init = \<lparr>condition_value = 0, condition_category = generic_category\<rparr>"

definition error_condition_bool :: "error_condition \<Rightarrow> bool" where
  "error_condition_bool ge = (condition_value ge \<noteq> 0)"

definition error_code_init :: error_code where
  "error_code_init = \<lparr>code_value = 0, code_category = system_category\<rparr>"

definition error_code_bool :: "error_code \<Rightarrow> bool" where
  "error_code_bool se = (code_value se \<noteq> 0)"

text \<open>
  \<^verbatim>\<open>error_traits<std::error_condition>\<close> and \<^verbatim>\<open>error_traits<std::error_code>\<close>:
  \<^verbatim>\<open>ok(ge) { return !ge; }\<close>.
\<close>

definition error_traits_error_condition :: "error_condition error_traits" where
  "error_traits_error_condition =
     \<lparr>traits_initiate = error_condition_init, traits_ok = (\<lambda>ge. \<not> error_condition_bool ge)\<rparr>"

definition error_traits_error_code :: "error_code error_traits" where
  "error_traits_error_code =
     \<lparr>traits_initiate = error_code_init, traits_ok = (\<lambda>se. \<not> error_code_bool se)\<rparr>"

section \<open>The guarded value\<close>

text \<open>
  \<^verbatim>\<open>unique_error<Error>\<close> has the two data members \<^verbatim>\<open>value\<close> and \<^verbatim>\<open>disposition\<close>. Objects
  live in a store and a member function takes the address \<open>this\<close> of its object: two
  references handed to one function may then name the same object, as in C++.
\<close>

record 'e unique_error =
  "value" :: 'e
  disposition :: Disposition

type_synonym addr = nat

type_synonym 'e store = "addr \<Rightarrow> 'e unique_error"

definition read_value :: "addr \<Rightarrow> ('e store, 'e) prog" where
  "read_value p = (\<lambda>s. (Inr (value (s p)), s))"

definition read_disposition :: "addr \<Rightarrow> ('e store, Disposition) prog" where
  "read_disposition p = (\<lambda>s. (Inr (disposition (s p)), s))"

definition write_value :: "addr \<Rightarrow> 'e \<Rightarrow> ('e store, unit) prog" where
  "write_value p v = (\<lambda>s. (Inr (), s(p := (s p)\<lparr>value := v\<rparr>)))"

definition write_disposition :: "addr \<Rightarrow> Disposition \<Rightarrow> ('e store, unit) prog" where
  "write_disposition p d = (\<lambda>s. (Inr (), s(p := (s p)\<lparr>disposition := d\<rparr>)))"

text \<open>The member initialisers of a constructor: both members are set at once.\<close>

definition construct :: "addr \<Rightarrow> 'e \<Rightarrow> Disposition \<Rightarrow> ('e store, unit) prog" where
  "construct p v d = (\<lambda>s. (Inr (), s(p := \<lparr>value = v, disposition = d\<rparr>)))"

subsection \<open>Overwriting, releasing and checking\<close>

text \<open>
  \<^verbatim>\<open>reset(type raw)\<close>: the assertion, then the two writes, then \<^verbatim>\<open>return *this\<close>.
\<close>

definition reset_raw :: "addr \<Rightarrow> 'e \<Rightarrow> ('e store, addr) prog" where
  "reset_raw this raw =
     bind (read_disposition this) (\<lambda>d.
     seq (fail_fast_assert (d \<noteq> Unchecked) ''error was not checked'')
    (seq (write_value this raw)
    (seq (write_disposition this Unchecked)
         (return this))))"

text \<open>
  \<^verbatim>\<open>reset()\<close>: calls \<^verbatim>\<open>reset(traits::initiate())\<close>, then sets the disposition.
\<close>

definition reset :: "'e error_traits \<Rightarrow> addr \<Rightarrow> ('e store, addr) prog" where
  "reset tr this =
     seq (reset_raw this (traits_initiate tr))
    (seq (write_disposition this Defaulted)
         (return this))"

definition release :: "'e error_traits \<Rightarrow> addr \<Rightarrow> ('e store, 'e) prog" where
  "release tr this =
     seq (write_disposition this Released)
    (bind (read_value this) (\<lambda>result.
     seq (reset tr this)
         (return result)))"

definition get :: "addr \<Rightarrow> ('e store, 'e) prog" where
  "get this = read_value this"

definition try_ok :: "'e error_traits \<Rightarrow> addr \<Rightarrow> ('e store, bool) prog" where
  "try_ok tr this = bind (read_value this) (\<lambda>v. return (traits_ok tr v))"

definition ok :: "'e error_traits \<Rightarrow> addr \<Rightarrow> ('e store, bool) prog" where
  "ok tr this = seq (write_disposition this Checked) (try_ok tr this)"

definition operator_bool :: "'e error_traits \<Rightarrow> addr \<Rightarrow> ('e store, bool) prog" where
  "operator_bool tr this = bind (ok tr this) (\<lambda>b. return (\<not> b))"

subsection \<open>Construction, destruction, assignment and swap\<close>

definition destructor :: "'e error_traits \<Rightarrow> addr \<Rightarrow> ('e store, unit) prog" where
  "destructor tr this = seq (reset tr this) (return ())"

definition construct_default :: "'e error_traits \<Rightarrow> addr \<Rightarrow> ('e store, unit) prog" where
  "construct_default tr this = construct this (traits_initiate tr) Defaulted"

text \<open>From a typed error, by \<^verbatim>\<open>const type&\<close> or by \<^verbatim>\<open>type&&\<close>.\<close>

definition construct_raw :: "addr \<Rightarrow> 'e \<Rightarrow> ('e store, unit) prog" where
  "construct_raw this other = construct this other Initiated"

definition construct_move :: "'e error_traits \<Rightarrow> addr \<Rightarrow> addr \<Rightarrow> ('e store, unit) prog" where
  "construct_move tr this other =
     bind (release tr other) (\<lambda>r. construct this r Unchecked)"

definition construct_copy :: "addr \<Rightarrow> addr \<Rightarrow> ('e store, unit) prog" where
  "construct_copy this other =
     bind (read_value other) (\<lambda>v. construct this v Unchecked)"

definition swap :: "addr \<Rightarrow> addr \<Rightarrow> ('e store, unit) prog" where
  "swap this other =
     bind (read_value this) (\<lambda>v.
     bind (read_value other) (\<lambda>w.
     seq (write_value this w)
    (seq (write_value other v)
    (bind (read_disposition this) (\<lambda>d.
     bind (read_disposition other) (\<lambda>e.
     seq (write_disposition this e)
         (write_disposition other d)))))))"

definition assign_move :: "'e error_traits \<Rightarrow> addr \<Rightarrow> addr \<Rightarrow> ('e store, addr) prog" where
  "assign_move tr this other =
     bind (release tr other) (\<lambda>r.
     seq (write_value this r)
    (seq (write_disposition this Unchecked)
         (return this)))"

definition assign_copy :: "addr \<Rightarrow> addr \<Rightarrow> ('e store, addr) prog" where
  "assign_copy this other =
     bind (read_value other) (\<lambda>v.
     seq (write_value this v)
    (seq (write_disposition this Unchecked)
         (return this)))"

subsection \<open>Comparisons of two guarded values\<close>

text \<open>
  The bodies are \<^verbatim>\<open>lhs.value < rhs.value\<close>, \<^verbatim>\<open>lhs.value == rhs.value\<close> and
  \<^verbatim>\<open>!(lhs == rhs)\<close>. The operators \<^verbatim>\<open><\<close> and \<^verbatim>\<open>==\<close> on two \<^verbatim>\<open>Error\<close> values belong to
  the type \<^verbatim>\<open>Error\<close>: they are the parameters \<open>E_less\<close> and \<open>E_eq\<close>.
\<close>

definition operator_less :: "('e \<Rightarrow> 'e \<Rightarrow> bool) \<Rightarrow> addr \<Rightarrow> addr \<Rightarrow> ('e store, bool) prog" where
  "operator_less E_less lhs rhs =
     bind (read_value lhs) (\<lambda>l. bind (read_value rhs) (\<lambda>r. return (E_less l r)))"

definition operator_eq :: "('e \<Rightarrow> 'e \<Rightarrow> bool) \<Rightarrow> addr \<Rightarrow> addr \<Rightarrow> ('e store, bool) prog" where
  "operator_eq E_eq lhs rhs =
     bind (read_value lhs) (\<lambda>l. bind (read_value rhs) (\<lambda>r. return (E_eq l r)))"

definition operator_neq :: "('e \<Rightarrow> 'e \<Rightarrow> bool) \<Rightarrow> addr \<Rightarrow> addr \<Rightarrow> ('e store, bool) prog" where
  "operator_neq E_eq lhs rhs = bind (operator_eq E_eq lhs rhs) (\<lambda>b. return (\<not> b))"

subsection \<open>Comparisons of a guarded value with a bare error\<close>

text \<open>
  The bodies read \<^verbatim>\<open>lhs.value < rhs.value\<close> and \<^verbatim>\<open>lhs.value == rhs.value\<close> also where one
  side is a bare \<^verbatim>\<open>const Error&\<close>: on that side \<^verbatim>\<open>.value\<close> is a member of the type
  \<^verbatim>\<open>Error\<close> itself. That member (\<open>member_value\<close>) and the comparisons of an \<^verbatim>\<open>Error\<close> with
  the member's type belong to \<^verbatim>\<open>Error\<close>, so they are parameters.
\<close>

definition operator_less_raw ::
    "('e \<Rightarrow> 'v) \<Rightarrow> ('e \<Rightarrow> 'v \<Rightarrow> bool) \<Rightarrow> addr \<Rightarrow> 'e \<Rightarrow> ('e store, bool) prog" where
  "operator_less_raw member_value less_ev lhs rhs =
     bind (read_value lhs) (\<lambda>l. return (less_ev l (member_value rhs)))"

definition operator_eq_raw ::
    "('e \<Rightarrow> 'v) \<Rightarrow> ('e \<Rightarrow> 'v \<Rightarrow> bool) \<Rightarrow> addr \<Rightarrow> 'e \<Rightarrow> ('e store, bool) prog" where
  "operator_eq_raw member_value eq_ev lhs rhs =
     bind (read_value lhs) (\<lambda>l. return (eq_ev l (member_value rhs)))"

definition operator_neq_raw ::
    "('e \<Rightarrow> 'v) \<Rightarrow> ('e \<Rightarrow> 'v \<Rightarrow> bool) \<Rightarrow> addr \<Rightarrow> 'e \<Rightarrow> ('e store, bool) prog" where
  "operator_neq_raw member_value eq_ev lhs rhs =
     bind (operator_eq_raw member_value eq_ev lhs rhs) (\<lambda>b. return (\<not> b))"

definition raw_operator_less ::
    "('e \<Rightarrow> 'v) \<Rightarrow> ('v \<Rightarrow> 'e \<Rightarrow> bool) \<Rightarrow> 'e \<Rightarrow> addr \<Rightarrow> ('e store, bool) prog" where
  "raw_operator_less member_value less_ve lhs rhs =
     bind (read_value rhs) (\<lambda>r. return (less_ve (member_value lhs) r))"

definition raw_operator_eq ::
    "('e \<Rightarrow> 'v) \<Rightarrow> ('e \<Rightarrow> 'v \<Rightarrow> bool) \<Rightarrow> 'e \<Rightarrow> addr \<Rightarrow> ('e store, bool) prog" where
  "raw_operator_eq member_value eq_ev lhs rhs = operator_eq_raw member_value eq_ev rhs lhs"

definition raw_operator_neq ::
    "('e \<Rightarrow> 'v) \<Rightarrow> ('e \<Rightarrow> 'v \<Rightarrow> bool) \<Rightarrow> 'e \<Rightarrow> addr \<Rightarrow> ('e store, bool) prog" where
  "raw_operator_neq member_value eq_ev lhs rhs =
     bind (operator_eq_raw member_value eq_ev rhs lhs) (\<lambda>b. return (\<not> b))"

section \<open>Concrete programs and error types\<close>

text \<open>A store in which every object holds the value \<open>v\<close> with the disposition \<open>d\<close>.\<close>

definition store_of :: "'e \<Rightarrow> Disposition \<Rightarrow> 'e store" where
  "store_of v d = (\<lambda>_. \<lparr>value = v, disposition = d\<rparr>)"

text \<open>
  \<^verbatim>\<open>std::make_error_condition(std::errc::invalid_argument)\<close>, the failure of the tests
  (\<^verbatim>\<open>failApiCall\<close>); 22 is the value of \<^verbatim>\<open>EINVAL\<close>.
\<close>

definition invalid_argument :: error_condition where
  "invalid_argument = \<lparr>condition_value = 22, condition_category = generic_category\<rparr>"

text \<open>
  An error type of a caller that takes the primary template:
  \<^verbatim>\<open>enum status_t { status_ok, status_failed };\<close>. \<^verbatim>\<open>status_t{}\<close> is the enumerator with
  the value 0, and a \<^verbatim>\<open>status_t\<close> converts to \<^verbatim>\<open>true\<close> when it is not 0.
\<close>

datatype status_t = status_ok | status_failed

definition status_t_bool :: "status_t \<Rightarrow> bool" where
  "status_t_bool e = (e \<noteq> status_ok)"

text \<open>
  An error type of a caller that has a data member named \<^verbatim>\<open>value\<close> (here \<open>status_value\<close>),
  with the comparisons the bodies of the mixed operators need:
  \<^verbatim>\<open>
  struct status { int facility; int value; };
  bool operator==(const status& a, const status& b)
    { return a.facility == b.facility && a.value == b.value; }
  bool operator<(const status& a, const status& b)
    { return a.facility < b.facility || (a.facility == b.facility && a.value < b.value); }
  bool operator==(const status& a, int v) { return a.value == v; }
  bool operator<(const status& a, int v)  { return a.value < v; }
  bool operator<(int v, const status& b)  { return v < b.value; }
  \<close>
\<close>

record status =
  facility :: int
  status_value :: int

definition status_eq :: "status \<Rightarrow> status \<Rightarrow> bool" where
  "status_eq a b = (facility a = facility b \<and> status_value a = status_value b)"

definition status_less :: "status \<Rightarrow> status \<Rightarrow> bool" where
  "status_less a b =
     (facility a < facility b \<or> (facility a = facility b \<and> status_value a < status_value b))"

definition status_eq_int :: "status \<Rightarrow> int \<Rightarrow> bool" where
  "status_eq_int a v = (status_value a = v)"

definition status_less_int :: "status \<Rightarrow> int \<Rightarrow> bool" where
  "status_less_int a v = (status_value a < v)"

definition int_less_status :: "int \<Rightarrow> status \<Rightarrow> bool" where
  "int_less_status v b = (v < status_value b)"

text \<open>
  \<^verbatim>\<open>status{1, 5}\<close>, \<^verbatim>\<open>status{2, 5}\<close> and \<^verbatim>\<open>status{1, 7}\<close>.
\<close>

definition status_1_5 :: status where
  "status_1_5 = \<lparr>facility = 1, status_value = 5\<rparr>"

definition status_2_5 :: status where
  "status_2_5 = \<lparr>facility = 2, status_value = 5\<rparr>"

definition status_1_7 :: status where
  "status_1_7 = \<lparr>facility = 1, status_value = 7\<rparr>"

section \<open>What each member function computes\<close>

lemmas prog_defs = return_def bind_def seq_def fail_fast_assert_def read_value_def
  read_disposition_def write_value_def write_disposition_def construct_def

lemma overwrite_both:
  fixes g :: "'e unique_error"
  shows "g\<lparr>value := v, disposition := d\<rparr> = \<lparr>value = v, disposition = d\<rparr>"
  by (cases g) simp

lemma rebuild_members:
  fixes g :: "'e unique_error"
  shows "\<lparr>value = value g, disposition = disposition g\<rparr> = g"
  by (cases g) simp

lemma reset_raw_run:
  "reset_raw this raw s =
     (if disposition (s this) = Unchecked
      then (Inl (fail_fast ''error was not checked''), s)
      else (Inr this, s(this := \<lparr>value = raw, disposition = Unchecked\<rparr>)))"
  by (simp add: reset_raw_def prog_defs overwrite_both)

lemma reset_run:
  "reset tr this s =
     (if disposition (s this) = Unchecked
      then (Inl (fail_fast ''error was not checked''), s)
      else (Inr this, s(this := \<lparr>value = traits_initiate tr, disposition = Defaulted\<rparr>)))"
  by (simp add: reset_def reset_raw_run return_def bind_def seq_def write_disposition_def)

lemma destructor_run:
  "destructor tr this s =
     (if disposition (s this) = Unchecked
      then (Inl (fail_fast ''error was not checked''), s)
      else (Inr (), s(this := \<lparr>value = traits_initiate tr, disposition = Defaulted\<rparr>)))"
  by (simp add: destructor_def reset_run return_def bind_def seq_def)

lemma release_run:
  "release tr this s =
     (Inr (value (s this)),
      s(this := \<lparr>value = traits_initiate tr, disposition = Defaulted\<rparr>))"
  by (simp add: release_def reset_run return_def bind_def seq_def write_disposition_def
      read_value_def)

lemma get_run: "get this s = (Inr (value (s this)), s)"
  by (simp add: get_def read_value_def)

lemma try_ok_run: "try_ok tr this s = (Inr (traits_ok tr (value (s this))), s)"
  by (simp add: try_ok_def prog_defs)

lemma ok_run:
  "ok tr this s =
     (Inr (traits_ok tr (value (s this))), s(this := (s this)\<lparr>disposition := Checked\<rparr>))"
  by (simp add: ok_def try_ok_def prog_defs)

lemma operator_bool_run:
  "operator_bool tr this s =
     (Inr (\<not> traits_ok tr (value (s this))), s(this := (s this)\<lparr>disposition := Checked\<rparr>))"
  by (simp add: operator_bool_def ok_run return_def bind_def)

lemma construct_default_run:
  "construct_default tr this s =
     (Inr (), s(this := \<lparr>value = traits_initiate tr, disposition = Defaulted\<rparr>))"
  by (simp add: construct_default_def construct_def)

lemma construct_raw_run:
  "construct_raw this other s = (Inr (), s(this := \<lparr>value = other, disposition = Initiated\<rparr>))"
  by (simp add: construct_raw_def construct_def)

lemma construct_move_run:
  "construct_move tr this other s =
     (Inr (), s(other := \<lparr>value = traits_initiate tr, disposition = Defaulted\<rparr>,
                this := \<lparr>value = value (s other), disposition = Unchecked\<rparr>))"
  by (simp add: construct_move_def release_run bind_def construct_def)

lemma construct_copy_run:
  "construct_copy this other s =
     (Inr (), s(this := \<lparr>value = value (s other), disposition = Unchecked\<rparr>))"
  by (simp add: construct_copy_def prog_defs)

lemma assign_move_run:
  "assign_move tr this other s =
     (Inr this, s(other := \<lparr>value = traits_initiate tr, disposition = Defaulted\<rparr>,
                  this := \<lparr>value = value (s other), disposition = Unchecked\<rparr>))"
  by (simp add: assign_move_def release_run return_def bind_def seq_def write_value_def
      write_disposition_def overwrite_both)

lemma assign_copy_run:
  "assign_copy this other s =
     (Inr this, s(this := \<lparr>value = value (s other), disposition = Unchecked\<rparr>))"
  by (simp add: assign_copy_def prog_defs overwrite_both)

lemma swap_run:
  "this \<noteq> other \<Longrightarrow> swap this other s = (Inr (), s(this := s other, other := s this))"
  by (simp add: swap_def prog_defs overwrite_both rebuild_members fun_upd_twist)

lemma operator_eq_run:
  "operator_eq E_eq lhs rhs s = (Inr (E_eq (value (s lhs)) (value (s rhs))), s)"
  by (simp add: operator_eq_def prog_defs)

lemma operator_neq_run:
  "operator_neq E_eq lhs rhs s = (Inr (\<not> E_eq (value (s lhs)) (value (s rhs))), s)"
  by (simp add: operator_neq_def operator_eq_run return_def bind_def)

lemma operator_less_run:
  "operator_less E_less lhs rhs s = (Inr (E_less (value (s lhs)) (value (s rhs))), s)"
  by (simp add: operator_less_def prog_defs)

lemma operator_eq_raw_run:
  "operator_eq_raw member_value eq_ev lhs rhs s =
     (Inr (eq_ev (value (s lhs)) (member_value rhs)), s)"
  by (simp add: operator_eq_raw_def prog_defs)

lemma operator_neq_raw_run:
  "operator_neq_raw member_value eq_ev lhs rhs s =
     (Inr (\<not> eq_ev (value (s lhs)) (member_value rhs)), s)"
  by (simp add: operator_neq_raw_def operator_eq_raw_run return_def bind_def)

lemma operator_less_raw_run:
  "operator_less_raw member_value less_ev lhs rhs s =
     (Inr (less_ev (value (s lhs)) (member_value rhs)), s)"
  by (simp add: operator_less_raw_def prog_defs)

lemma raw_operator_less_run:
  "raw_operator_less member_value less_ve lhs rhs s =
     (Inr (less_ve (member_value lhs) (value (s rhs))), s)"
  by (simp add: raw_operator_less_def prog_defs)

lemma seq_run:
  "seq m n s = (case m s of (Inl e, s') \<Rightarrow> (Inl e, s') | (Inr a, s') \<Rightarrow> n s')"
  by (simp add: seq_def bind_def)

lemma error_condition_traits_valid:
  "traits_ok error_traits_error_condition (traits_initiate error_traits_error_condition)"
  by (simp add: error_traits_error_condition_def error_condition_bool_def
      error_condition_init_def)

lemma error_code_traits_valid:
  "traits_ok error_traits_error_code (traits_initiate error_traits_error_code)"
  by (simp add: error_traits_error_code_def error_code_bool_def error_code_init_def)

lemma primary_traits_ok_initiate:
  "traits_ok (error_traits_primary T_init T_bool)
     (traits_initiate (error_traits_primary T_init T_bool)) = T_bool T_init"
  by (simp add: error_traits_primary_def)

lemma default_constructed_try_ok:
  "seq (construct_default tr g) (try_ok tr g) s =
     (Inr (traits_ok tr (traits_initiate tr)),
      s(g := \<lparr>value = traits_initiate tr, disposition = Defaulted\<rparr>))"
  by (simp add: seq_run construct_default_run try_ok_run)

text \<open>
  Move assignment of an object to itself: \<^verbatim>\<open>release()\<close> clears it, then the two writes
  put the old value back, with the disposition \<^verbatim>\<open>Unchecked\<close>.
\<close>

lemma assign_move_self:
  "assign_move tr g g s =
     (Inr g, s(g := \<lparr>value = value (s g), disposition = Unchecked\<rparr>))"
  by (simp add: assign_move_run)

section \<open>The claims\<close>

text \<open>
  C1. \<^verbatim>\<open>g.reset(raw)\<close> takes the fatal path exactly when the disposition of \<open>g\<close> is
  \<^verbatim>\<open>Unchecked\<close>. When it does not, the value of \<open>g\<close> is \<open>raw\<close>, its disposition is
  \<^verbatim>\<open>Unchecked\<close>, and the call returns \<open>g\<close>. \<^verbatim>\<open>g.reset()\<close> has the same guard and, when it
  does not take the fatal path, leaves the success value of the traits with the
  disposition \<^verbatim>\<open>Defaulted\<close>, and returns \<open>g\<close>.
\<close>

theorem reset_guard:
  "(triggers_fatal (reset_raw g raw) s \<longleftrightarrow> disposition (s g) = Unchecked) \<and>
   (\<not> triggers_fatal (reset_raw g raw) s \<longrightarrow>
      reset_raw g raw s = (Inr g, s(g := \<lparr>value = raw, disposition = Unchecked\<rparr>))) \<and>
   (triggers_fatal (reset tr g) s \<longleftrightarrow> disposition (s g) = Unchecked) \<and>
   (\<not> triggers_fatal (reset tr g) s \<longrightarrow>
      reset tr g s =
        (Inr g, s(g := \<lparr>value = traits_initiate tr, disposition = Defaulted\<rparr>)))"
proof -
  have raw: "triggers_fatal (reset_raw g raw) s \<longleftrightarrow> disposition (s g) = Unchecked"
    by (simp add: triggers_fatal_def reset_raw_run)
  have clear: "triggers_fatal (reset tr g) s \<longleftrightarrow> disposition (s g) = Unchecked"
    by (simp add: triggers_fatal_def reset_run)
  show ?thesis
    unfolding raw clear by (simp add: reset_raw_run reset_run)
qed

theorem reset_guard_witness:
  "\<not> triggers_fatal (reset_raw 0 error_condition_init) (store_of invalid_argument Checked) \<and>
   reset_raw 0 error_condition_init (store_of invalid_argument Checked) =
     (Inr 0, (store_of invalid_argument Checked)
        (0 := \<lparr>value = error_condition_init, disposition = Unchecked\<rparr>)) \<and>
   \<not> triggers_fatal (reset error_traits_error_condition 0)
       (store_of invalid_argument Checked) \<and>
   reset error_traits_error_condition 0 (store_of invalid_argument Checked) =
     (Inr 0, (store_of invalid_argument Checked)
        (0 := \<lparr>value = error_condition_init, disposition = Defaulted\<rparr>)) \<and>
   triggers_fatal (reset_raw 0 error_condition_init) (store_of invalid_argument Unchecked)"
  using reset_guard [of 0 error_condition_init "store_of invalid_argument Checked"
      error_traits_error_condition]
    reset_guard [of 0 error_condition_init "store_of invalid_argument Unchecked"
      error_traits_error_condition]
  by (simp add: store_of_def error_traits_error_condition_def)

text \<open>
  C2. Destroying \<open>g\<close> is calling \<^verbatim>\<open>g.reset()\<close>: the destructor takes the fatal path
  exactly when \<^verbatim>\<open>reset()\<close> does and leaves the same store, so it takes the fatal path
  exactly when the disposition is \<^verbatim>\<open>Unchecked\<close>, and in none of the dispositions
  \<^verbatim>\<open>Initiated\<close>, \<^verbatim>\<open>Defaulted\<close>, \<^verbatim>\<open>Released\<close>, \<^verbatim>\<open>Checked\<close>.
\<close>

theorem destructor_is_reset:
  "(triggers_fatal (destructor tr g) s \<longleftrightarrow> triggers_fatal (reset tr g) s) \<and>
   snd (destructor tr g s) = snd (reset tr g s) \<and>
   (triggers_fatal (destructor tr g) s \<longleftrightarrow> disposition (s g) = Unchecked) \<and>
   (disposition (s g) \<in> {Initiated, Defaulted, Released, Checked} \<longrightarrow>
      \<not> triggers_fatal (destructor tr g) s)"
proof (cases "disposition (s g) = Unchecked")
  case True
  then show ?thesis
    by (simp add: triggers_fatal_def destructor_run reset_run)
next
  case False
  then show ?thesis
    by (simp add: triggers_fatal_def destructor_run reset_run)
qed

theorem destructor_is_reset_witness:
  "disposition (store_of invalid_argument Initiated 0)
     \<in> {Initiated, Defaulted, Released, Checked} \<and>
   \<not> triggers_fatal (destructor error_traits_error_condition 0)
       (store_of invalid_argument Initiated) \<and>
   triggers_fatal (destructor error_traits_error_condition 0)
     (store_of invalid_argument Unchecked)"
  using destructor_is_reset [of error_traits_error_condition 0
      "store_of invalid_argument Initiated"]
    destructor_is_reset [of error_traits_error_condition 0
      "store_of invalid_argument Unchecked"]
  by (auto simp add: store_of_def)

text \<open>
  C3. \<^verbatim>\<open>g.release()\<close> never takes the fatal path, whatever the disposition of \<open>g\<close>. It
  returns the value \<open>g\<close> held before the call and leaves \<open>g\<close> with the success value of the
  traits and the disposition \<^verbatim>\<open>Defaulted\<close>; a destruction, a \<^verbatim>\<open>reset()\<close> or a
  \<^verbatim>\<open>reset(raw)\<close> right after it does not take the fatal path.
\<close>

theorem release_never_fails:
  "release tr g s =
     (Inr (value (s g)), s(g := \<lparr>value = traits_initiate tr, disposition = Defaulted\<rparr>)) \<and>
   \<not> triggers_fatal (release tr g) s \<and>
   \<not> triggers_fatal (seq (release tr g) (destructor tr g)) s \<and>
   \<not> triggers_fatal (seq (release tr g) (reset tr g)) s \<and>
   \<not> triggers_fatal (seq (release tr g) (reset_raw g raw)) s"
  by (simp add: triggers_fatal_def seq_run release_run destructor_run reset_run reset_raw_run)

text \<open>
  C4. \<^verbatim>\<open>g.ok()\<close> sets the disposition of \<open>g\<close> to \<^verbatim>\<open>Checked\<close>, returns \<^verbatim>\<open>traits::ok\<close> of the
  value of \<open>g\<close> and leaves the value as it was. The conversion to \<^verbatim>\<open>bool\<close> returns the
  negation of that result and leaves the same store, so a destruction right after it
  does not take the fatal path.
\<close>

theorem ok_marks_checked:
  "ok tr g s =
     (Inr (traits_ok tr (value (s g))), s(g := (s g)\<lparr>disposition := Checked\<rparr>)) \<and>
   operator_bool tr g s =
     (Inr (\<not> traits_ok tr (value (s g))), s(g := (s g)\<lparr>disposition := Checked\<rparr>)) \<and>
   value (snd (ok tr g s) g) = value (s g) \<and>
   disposition (snd (ok tr g s) g) = Checked \<and>
   snd (operator_bool tr g s) = snd (ok tr g s) \<and>
   \<not> triggers_fatal (seq (operator_bool tr g) (destructor tr g)) s"
  by (simp add: triggers_fatal_def seq_run ok_run operator_bool_run destructor_run)

text \<open>
  C5, as the claim states it, fails when \<open>a\<close> and \<open>b\<close> are one object. The move assignment
  \<^verbatim>\<open>g = std::move(g)\<close> on a checked \<open>g\<close> holding \<^verbatim>\<open>invalid_argument\<close> leaves \<open>g\<close> with
  \<^verbatim>\<open>invalid_argument\<close> and the disposition \<^verbatim>\<open>Unchecked\<close>: the source is not left with the
  success value and \<^verbatim>\<open>Defaulted\<close>, and destroying it takes the fatal path.
\<close>

theorem move_assign_self_counterexample:
  "assign_move error_traits_error_condition 0 0 (store_of invalid_argument Checked) =
     (Inr 0, (store_of invalid_argument Checked)
        (0 := \<lparr>value = invalid_argument, disposition = Unchecked\<rparr>)) \<and>
   snd (assign_move error_traits_error_condition 0 0 (store_of invalid_argument Checked)) 0 \<noteq>
     \<lparr>value = traits_initiate error_traits_error_condition, disposition = Defaulted\<rparr> \<and>
   triggers_fatal
     (seq (assign_move error_traits_error_condition 0 0)
          (destructor error_traits_error_condition 0))
     (store_of invalid_argument Checked)"
  by (simp add: triggers_fatal_def seq_run assign_move_run destructor_run store_of_def)

text \<open>
  C5, amended. Moving from \<open>a\<close> into \<open>b\<close>, by the move constructor or by move assignment,
  never takes the fatal path, whatever the disposition of \<open>a\<close>, and \<open>b\<close> then holds the value
  \<open>a\<close> held, with the disposition \<^verbatim>\<open>Unchecked\<close>; this holds also when \<open>a\<close> and \<open>b\<close> are one
  object. When \<open>a\<close> and \<open>b\<close> are two objects, \<open>a\<close> is left with the success value of the traits
  and the disposition \<^verbatim>\<open>Defaulted\<close>, and destroying \<open>a\<close> does not take the fatal path.
\<close>

theorem move_transfers_ownership:
  "construct_move tr b a s =
     (Inr (), s(a := \<lparr>value = traits_initiate tr, disposition = Defaulted\<rparr>,
                b := \<lparr>value = value (s a), disposition = Unchecked\<rparr>)) \<and>
   assign_move tr b a s =
     (Inr b, s(a := \<lparr>value = traits_initiate tr, disposition = Defaulted\<rparr>,
               b := \<lparr>value = value (s a), disposition = Unchecked\<rparr>)) \<and>
   \<not> triggers_fatal (construct_move tr b a) s \<and>
   \<not> triggers_fatal (assign_move tr b a) s \<and>
   snd (construct_move tr b a s) b = \<lparr>value = value (s a), disposition = Unchecked\<rparr> \<and>
   snd (assign_move tr b a s) b = \<lparr>value = value (s a), disposition = Unchecked\<rparr> \<and>
   (a \<noteq> b \<longrightarrow>
      snd (construct_move tr b a s) a =
        \<lparr>value = traits_initiate tr, disposition = Defaulted\<rparr> \<and>
      snd (assign_move tr b a s) a =
        \<lparr>value = traits_initiate tr, disposition = Defaulted\<rparr> \<and>
      \<not> triggers_fatal (seq (construct_move tr b a) (destructor tr a)) s \<and>
      \<not> triggers_fatal (seq (assign_move tr b a) (destructor tr a)) s)"
proof -
  have no_fail: "\<not> triggers_fatal (construct_move tr b a) s"
    "\<not> triggers_fatal (assign_move tr b a) s"
    by (simp_all add: triggers_fatal_def construct_move_run assign_move_run)
  have destination:
    "snd (construct_move tr b a s) b = \<lparr>value = value (s a), disposition = Unchecked\<rparr>"
    "snd (assign_move tr b a s) b = \<lparr>value = value (s a), disposition = Unchecked\<rparr>"
    by (simp_all add: construct_move_run assign_move_run)
  have source: "\<not> triggers_fatal (seq (construct_move tr b a) (destructor tr a)) s"
    "\<not> triggers_fatal (seq (assign_move tr b a) (destructor tr a)) s" if "a \<noteq> b"
    using that
    by (simp_all add: triggers_fatal_def seq_run construct_move_run assign_move_run
        destructor_run)
  show ?thesis
    using no_fail destination source by (simp add: construct_move_run assign_move_run)
qed

theorem move_transfers_ownership_witness:
  "(0::addr) \<noteq> 1 \<and>
   assign_move error_traits_error_condition 1 0 (store_of invalid_argument Checked) =
     (Inr 1, (store_of invalid_argument Checked)
        (0 := \<lparr>value = error_condition_init, disposition = Defaulted\<rparr>,
         1 := \<lparr>value = invalid_argument, disposition = Unchecked\<rparr>)) \<and>
   construct_move error_traits_error_condition 1 0 (store_of invalid_argument Checked) =
     (Inr (), (store_of invalid_argument Checked)
        (0 := \<lparr>value = error_condition_init, disposition = Defaulted\<rparr>,
         1 := \<lparr>value = invalid_argument, disposition = Unchecked\<rparr>)) \<and>
   snd (assign_move error_traits_error_condition 1 0 (store_of invalid_argument Checked)) 0 =
     \<lparr>value = error_condition_init, disposition = Defaulted\<rparr> \<and>
   \<not> triggers_fatal
       (seq (assign_move error_traits_error_condition 1 0)
            (destructor error_traits_error_condition 0))
       (store_of invalid_argument Checked) \<and>
   snd (assign_move error_traits_error_condition 0 0 (store_of invalid_argument Checked)) 0 =
     \<lparr>value = invalid_argument, disposition = Unchecked\<rparr>"
  using move_transfers_ownership [of error_traits_error_condition 1 0
      "store_of invalid_argument Checked"]
    move_transfers_ownership [of error_traits_error_condition 0 0
      "store_of invalid_argument Checked"]
  by (simp add: store_of_def error_traits_error_condition_def)

text \<open>
  C6. When the disposition of \<open>g\<close> is \<^verbatim>\<open>Unchecked\<close>, assigning another guarded value to
  \<open>g\<close>, by copy or by move, does not take the fatal path: the value \<open>g\<close> held is replaced by
  the value of the other object and the disposition of \<open>g\<close> is \<^verbatim>\<open>Unchecked\<close> afterwards,
  whereas \<^verbatim>\<open>reset(raw)\<close> and \<^verbatim>\<open>reset()\<close> on the same store take the fatal path.
\<close>

theorem assignment_skips_check:
  assumes "disposition (s g) = Unchecked"
  shows "assign_copy g other s =
           (Inr g, s(g := \<lparr>value = value (s other), disposition = Unchecked\<rparr>)) \<and>
         \<not> triggers_fatal (assign_copy g other) s \<and>
         \<not> triggers_fatal (assign_move tr g other) s \<and>
         snd (assign_move tr g other s) g =
           \<lparr>value = value (s other), disposition = Unchecked\<rparr> \<and>
         triggers_fatal (reset_raw g raw) s \<and>
         triggers_fatal (reset tr g) s"
  using assms
  by (simp add: triggers_fatal_def assign_copy_run assign_move_run reset_raw_run reset_run)

theorem assignment_skips_check_witness:
  "disposition (store_of invalid_argument Unchecked 0) = Unchecked \<and>
   assign_copy 0 1 (store_of invalid_argument Unchecked) =
     (Inr 0, (store_of invalid_argument Unchecked)
        (0 := \<lparr>value = invalid_argument, disposition = Unchecked\<rparr>)) \<and>
   \<not> triggers_fatal (assign_move error_traits_error_condition 0 1)
       (store_of invalid_argument Unchecked) \<and>
   triggers_fatal (reset_raw 0 error_condition_init) (store_of invalid_argument Unchecked)"
  using assignment_skips_check [of "store_of invalid_argument Unchecked" 0 1
      error_traits_error_condition error_condition_init]
  by (simp add: store_of_def)

text \<open>
  C7, at the primary template. For \<^verbatim>\<open>enum status_t { status_ok, status_failed }\<close> the
  primary template gives \<^verbatim>\<open>initiate() == status_ok\<close> and \<^verbatim>\<open>ok(status_ok) == false\<close>, and a
  default-constructed \<^verbatim>\<open>unique_error<status_t>\<close> answers \<^verbatim>\<open>false\<close> to \<^verbatim>\<open>try_ok()\<close>; the
  same holds for \<^verbatim>\<open>bool\<close>. (The two specialisations for the status types of the standard
  library do accept their initial value: \<open>error_condition_traits_valid\<close> and
  \<open>error_code_traits_valid\<close>.)
\<close>

theorem primary_traits_reject_initiate:
  "traits_ok (error_traits_primary status_ok status_t_bool)
      (traits_initiate (error_traits_primary status_ok status_t_bool)) = False \<and>
   fst (seq (construct_default (error_traits_primary status_ok status_t_bool) g)
            (try_ok (error_traits_primary status_ok status_t_bool) g) s) = Inr False \<and>
   traits_ok (error_traits_primary False (\<lambda>b. b))
      (traits_initiate (error_traits_primary False (\<lambda>b. b))) = False"
  by (simp add: default_constructed_try_ok primary_traits_ok_initiate status_t_bool_def)

text \<open>
  C8. Comparing two guarded values with \<^verbatim>\<open>==\<close>, \<^verbatim>\<open>!=\<close> or \<^verbatim>\<open><\<close> returns the comparison of
  the two values and leaves the store as it was. So, once a \<^verbatim>\<open>reset(raw)\<close> has succeeded
  on \<open>g\<close>, each of the three comparisons leaves the store of that moment, and a
  \<^verbatim>\<open>reset(raw')\<close> or a \<^verbatim>\<open>reset()\<close> on \<open>g\<close> after the comparison takes the fatal path.
\<close>

theorem comparison_keeps_obligation:
  "operator_eq E_eq a b s = (Inr (E_eq (value (s a)) (value (s b))), s) \<and>
   operator_neq E_eq a b s = (Inr (\<not> E_eq (value (s a)) (value (s b))), s) \<and>
   operator_less E_less a b s = (Inr (E_less (value (s a)) (value (s b))), s) \<and>
   (disposition (s g) \<noteq> Unchecked \<longrightarrow>
      \<not> triggers_fatal (reset_raw g raw) s \<and>
      (\<forall>cmp \<in> {operator_eq E_eq a b, operator_neq E_eq a b, operator_less E_less a b}.
         snd (cmp (snd (reset_raw g raw s))) = snd (reset_raw g raw s) \<and>
         triggers_fatal (seq cmp (reset_raw g raw')) (snd (reset_raw g raw s)) \<and>
         triggers_fatal (seq cmp (reset tr g)) (snd (reset_raw g raw s))))"
  by (simp add: triggers_fatal_def seq_run operator_eq_run operator_neq_run operator_less_run
      reset_raw_run reset_run)

theorem comparison_keeps_obligation_witness:
  "disposition (store_of status_1_5 Checked 0) \<noteq> Unchecked \<and>
   operator_eq status_eq 0 1 (store_of status_1_5 Checked) =
     (Inr True, store_of status_1_5 Checked) \<and>
   triggers_fatal (seq (operator_eq status_eq 0 1) (reset_raw 0 status_2_5))
     (snd (reset_raw 0 status_1_7 (store_of status_1_5 Checked))) \<and>
   triggers_fatal
     (seq (operator_less status_less 0 1) (reset (error_traits_primary status_1_5 (\<lambda>_. True)) 0))
     (snd (reset_raw 0 status_1_7 (store_of status_1_5 Checked)))"
  using comparison_keeps_obligation [of status_eq 0 1 "store_of status_1_5 Checked" status_less
      0 status_1_7 status_2_5 "error_traits_primary status_1_5 (\<lambda>_. True)"]
  by (simp add: store_of_def status_eq_def)

text \<open>
  C9, at \<^verbatim>\<open>Error = status\<close>. With \<open>g\<close> holding \<^verbatim>\<open>status{1, 5}\<close> and \<^verbatim>\<open>r = status{2, 5}\<close>, the
  mixed \<^verbatim>\<open>g == r\<close> and \<^verbatim>\<open>r == g\<close> return \<^verbatim>\<open>true\<close> and \<^verbatim>\<open>g != r\<close> returns \<^verbatim>\<open>false\<close>, although
  \<^verbatim>\<open>g.get() == r\<close> is \<^verbatim>\<open>false\<close>; \<^verbatim>\<open>g < r\<close> returns \<^verbatim>\<open>false\<close> although \<^verbatim>\<open>g.get() < r\<close> is
  \<^verbatim>\<open>true\<close>; and with \<open>g\<close> holding \<^verbatim>\<open>status{2, 5}\<close> and \<^verbatim>\<open>r = status{1, 7}\<close>, \<^verbatim>\<open>r < g\<close> returns
  \<^verbatim>\<open>false\<close> although \<^verbatim>\<open>r < g.get()\<close> is \<^verbatim>\<open>true\<close>: the bodies compare with the member
  \<^verbatim>\<open>value\<close> of the bare error.
\<close>

theorem mixed_comparison_reads_member:
  "fst (operator_eq_raw status_value status_eq_int 0 status_2_5 (store_of status_1_5 Initiated))
     = Inr True \<and>
   fst (operator_neq_raw status_value status_eq_int 0 status_2_5 (store_of status_1_5 Initiated))
     = Inr False \<and>
   fst (raw_operator_eq status_value status_eq_int status_2_5 0 (store_of status_1_5 Initiated))
     = Inr True \<and>
   fst (bind (get 0) (\<lambda>v. return (status_eq v status_2_5)) (store_of status_1_5 Initiated))
     = Inr False \<and>
   fst (operator_less_raw status_value status_less_int 0 status_2_5
          (store_of status_1_5 Initiated))
     = Inr False \<and>
   fst (bind (get 0) (\<lambda>v. return (status_less v status_2_5)) (store_of status_1_5 Initiated))
     = Inr True \<and>
   fst (raw_operator_less status_value int_less_status status_1_7 0
          (store_of status_2_5 Initiated))
     = Inr False \<and>
   fst (bind (get 0) (\<lambda>v. return (status_less status_1_7 v)) (store_of status_2_5 Initiated))
     = Inr True"
  by (simp add: operator_eq_raw_run operator_neq_raw_run operator_less_raw_run
      raw_operator_less_run raw_operator_eq_def get_run bind_def return_def store_of_def
      status_eq_def status_less_def status_eq_int_def status_less_int_def int_less_status_def
      status_1_5_def status_2_5_def status_1_7_def)

text \<open>
  C10. When \<^verbatim>\<open>reset(raw)\<close> or \<^verbatim>\<open>reset()\<close> is called on a guarded value whose disposition
  is \<^verbatim>\<open>Unchecked\<close>, the call fails with the message of the assertion and the store it
  leaves is the store before the call: the value and the disposition are untouched.
\<close>

theorem failed_reset_keeps_state:
  assumes "disposition (s g) = Unchecked"
  shows "reset_raw g raw s = (Inl (fail_fast ''error was not checked''), s) \<and>
         reset tr g s = (Inl (fail_fast ''error was not checked''), s)"
proof -
  have stopped: "reset_raw g r s = (Inl (fail_fast ''error was not checked''), s)" for r
    using assms by (simp add: reset_raw_run)
  then show ?thesis
    by (simp add: reset_def seq_run)
qed

theorem failed_reset_keeps_state_witness:
  "disposition (store_of invalid_argument Unchecked 0) = Unchecked \<and>
   reset_raw 0 error_condition_init (store_of invalid_argument Unchecked) =
     (Inl (fail_fast ''error was not checked''), store_of invalid_argument Unchecked) \<and>
   reset error_traits_error_condition 0 (store_of invalid_argument Unchecked) =
     (Inl (fail_fast ''error was not checked''), store_of invalid_argument Unchecked)"
  using failed_reset_keeps_state [of "store_of invalid_argument Unchecked" 0
      error_condition_init error_traits_error_condition]
  by (simp add: store_of_def)

end
